theory Spec2Isabelle
  imports Main
begin

section \<open>Python values, exceptions and outcomes\<close>

text \<open>
  The debugger (argus/debug/debugger.py) and its listener (argus/debug/listener.py) are
  Python 2 code on top of \<^verbatim>\<open>multiprocessing.connection\<close>. Every call either returns a value,
  raises an exception, or never comes back because it waits on the network or on the
  operator; the three cases are the constructors of \<open>outcome\<close>.
\<close>

datatype pyerror = AuthenticationError | ValueError | TypeError | IOError | EOFError

datatype pyval = PyNone | PyBool bool | PyInt int | PyStr string | PyExc pyerror

datatype 'a outcome = Returned 'a | Raised pyerror | Blocked

text \<open>
  \<^verbatim>\<open>raise v\<close>: an exception instance is raised as it is; any other object (\<^verbatim>\<open>None\<close> among
  them) cannot be raised and the statement raises \<^verbatim>\<open>TypeError\<close> instead.
\<close>

fun py_raise :: "pyval \<Rightarrow> pyerror" where
  "py_raise (PyExc e) = e"
| "py_raise v = TypeError"

section \<open>The world of one process\<close>

text \<open>
  The other end of a connection, as the process will meet it: the secret it holds, the
  framed messages it is going to send, and whether it then closes its end (otherwise it
  stays silent with the connection open).
\<close>

record peer =
  secret :: string
  says :: "string list"
  hangs_up :: bool

text \<open>
  What a process can observe and do. Connections are numbered in the order in which they
  are established. \<open>remote\<close> holds the peers of the connections still to come, in order;
  \<open>inbox\<close> what is still unread on each established connection, with whether the peer
  hangs up after that; \<open>open_conns\<close> the connections whose handle is open at this end;
  \<open>held\<close> the connection the local variable \<^verbatim>\<open>conn\<close> of \<^verbatim>\<open>BasicListener.start\<close> refers to;
  \<open>stdin\<close> the lines the operator is going to type; \<open>files\<close> the file system; \<open>trace\<close>
  everything the process did, in order.
\<close>

datatype event =
    Connected nat
  | AuthRejected
  | Accepted nat
  | Sent nat string
  | Received nat string
  | Closed nat
  | Released nat
  | LogException string
  | LogWarning string
  | Info string
  | Prompted string
  | FileRead string
  | Invoked string "pyval list" "(string \<times> pyval) list"

record world =
  remote :: "peer list"
  inbox :: "(nat \<times> string list \<times> bool) list"
  open_conns :: "nat list"
  held :: "nat option"
  fresh :: nat
  stdin :: "string list"
  files :: "(string \<times> string) list"
  trace :: "event list"

definition emit :: "event list \<Rightarrow> world \<Rightarrow> world" where
  "emit es w = w\<lparr>trace := trace w @ es\<rparr>"

text \<open>Sequencing of statements, and \<^verbatim>\<open>try: ... except cls: ...\<close>.\<close>

fun and_then :: "'a outcome \<times> world \<Rightarrow> ('a \<Rightarrow> world \<Rightarrow> 'b outcome \<times> world) \<Rightarrow> 'b outcome \<times> world" where
  "and_then (Returned x, w) k = k x w"
| "and_then (Raised e, w) k = (Raised e, w)"
| "and_then (Blocked, w) k = (Blocked, w)"

fun except :: "'a outcome \<times> world \<Rightarrow> pyerror \<Rightarrow> (world \<Rightarrow> 'a outcome \<times> world) \<Rightarrow> 'a outcome \<times> world" where
  "except (Raised e, w) cls handler = (if e = cls then handler w else (Raised e, w))"
| "except (Returned x, w) cls handler = (Returned x, w)"
| "except (Blocked, w) cls handler = (Blocked, w)"

subsection \<open>The connection library\<close>

definition establish :: "event \<Rightarrow> peer \<Rightarrow> world \<Rightarrow> world" where
  "establish e p w =
     w\<lparr>inbox := (fresh w, says p, hangs_up p) # inbox w,
       open_conns := fresh w # open_conns w,
       fresh := Suc (fresh w),
       trace := trace w @ [e]\<rparr>"

text \<open>
  \<^verbatim>\<open>connection.Client(address, authkey=key)\<close>. With nobody listening the connection is
  refused (\<^verbatim>\<open>socket.error\<close>, an \<^verbatim>\<open>IOError\<close>); otherwise the two ends exchange challenges
  and a wrong secret raises \<^verbatim>\<open>AuthenticationError\<close>. The world is that of a process facing
  one console, so the address selects nothing.
\<close>

definition Client :: "string \<times> int \<Rightarrow> string \<Rightarrow> world \<Rightarrow> nat outcome \<times> world" where
  "Client address key w =
     (case remote w of
        [] \<Rightarrow> (Raised IOError, w)
      | p # rest \<Rightarrow>
          if key = secret p
          then (Returned (fresh w), establish (Connected (fresh w)) p (w\<lparr>remote := rest\<rparr>))
          else (Raised AuthenticationError, emit [AuthRejected] (w\<lparr>remote := rest\<rparr>)))"

text \<open>The \<^verbatim>\<open>Listener\<close> object: its address and its secret.\<close>

record listener =
  bound_to :: "string \<times> int"
  listener_key :: string

definition Listener :: "string \<times> int \<Rightarrow> string \<Rightarrow> world \<Rightarrow> listener outcome \<times> world" where
  "Listener address key w = (Returned \<lparr>bound_to = address, listener_key = key\<rparr>, w)"

text \<open>
  \<^verbatim>\<open>listener.accept()\<close> waits until a client has connected, then runs the same exchange of
  challenges: a client with a wrong secret makes \<^verbatim>\<open>accept\<close> raise \<^verbatim>\<open>AuthenticationError\<close>.
\<close>

definition accept :: "listener \<Rightarrow> world \<Rightarrow> nat outcome \<times> world" where
  "accept l w =
     (case remote w of
        [] \<Rightarrow> (Blocked, w)
      | p # rest \<Rightarrow>
          if secret p = listener_key l
          then (Returned (fresh w), establish (Accepted (fresh w)) p (w\<lparr>remote := rest\<rparr>))
          else (Raised AuthenticationError, emit [AuthRejected] (w\<lparr>remote := rest\<rparr>)))"

text \<open>
  \<^verbatim>\<open>send_bytes(buf)\<close> frames the whole buffer with its length and writes it: on a socket
  connection there is no ceiling on the size, and \<^verbatim>\<open>ValueError\<close> is raised only for a bad
  \<^verbatim>\<open>offset\<close> or \<^verbatim>\<open>size\<close> argument, which neither file passes.
\<close>

definition send_bytes :: "nat \<Rightarrow> string \<Rightarrow> world \<Rightarrow> pyval outcome \<times> world" where
  "send_bytes c buf w = (Returned PyNone, emit [Sent c buf] w)"

text \<open>
  \<^verbatim>\<open>recv_bytes()\<close> returns the next framed message; with none to come it raises
  \<^verbatim>\<open>EOFError\<close> when the peer has closed its end, and waits otherwise.
\<close>

definition recv_bytes :: "nat \<Rightarrow> world \<Rightarrow> string outcome \<times> world" where
  "recv_bytes c w =
     (case map_of (inbox w) c of
        None \<Rightarrow> (Blocked, w)
      | Some (ms, gone) \<Rightarrow>
          (case ms of
             [] \<Rightarrow> if gone then (Raised EOFError, w) else (Blocked, w)
           | m # ms' \<Rightarrow>
               (Returned m, (emit [Received c m] w)\<lparr>inbox := (c, ms', gone) # inbox w\<rparr>)))"

definition close :: "nat \<Rightarrow> world \<Rightarrow> pyval outcome \<times> world" where
  "close c w = (Returned PyNone, (emit [Closed c] w)\<lparr>open_conns := removeAll c (open_conns w)\<rparr>)"

text \<open>
  Neither file closes a connection on every path, but CPython frees a \<^verbatim>\<open>Connection\<close> as soon
  as nothing refers to it, and \<^verbatim>\<open>Connection.__del__\<close> closes the handle if it is still open.
  \<open>release\<close> is that moment; the peer sees the end of the stream from then on.
\<close>

definition release :: "nat \<Rightarrow> world \<Rightarrow> world" where
  "release c w = (emit [Released c] w)\<lparr>open_conns := removeAll c (open_conns w)\<rparr>"

text \<open>
  The end of a call whose only reference to connection \<open>c\<close> is a local variable: when the
  call is over (it has returned, or the exception it raised has been dealt with and its
  traceback dropped) the connection is freed. A call that never comes back keeps it.
\<close>

fun discard :: "nat \<Rightarrow> 'a outcome \<times> world \<Rightarrow> 'a outcome \<times> world" where
  "discard c (Returned x, w) = (Returned x, release c w)"
| "discard c (Raised e, w) = (Raised e, release c w)"
| "discard c (Blocked, w) = (Blocked, w)"

subsection \<open>Loggers, the terminal and the file system\<close>

text \<open>
  The loggers are those of \<^verbatim>\<open>logging.getLogger\<close> (util.get_logger): each method writes its
  record and returns \<^verbatim>\<open>None\<close>.
\<close>

definition log_exception :: "string \<Rightarrow> world \<Rightarrow> pyval outcome \<times> world" where
  "log_exception s w = (Returned PyNone, emit [LogException s] w)"

definition log_warning :: "string \<Rightarrow> world \<Rightarrow> pyval outcome \<times> world" where
  "log_warning s w = (Returned PyNone, emit [LogWarning s] w)"

definition info :: "string \<Rightarrow> world \<Rightarrow> pyval outcome \<times> world" where
  "info s w = (Returned PyNone, emit [Info s] w)"

definition raw_input :: "string \<Rightarrow> world \<Rightarrow> string outcome \<times> world" where
  "raw_input prompt w =
     (case stdin w of
        [] \<Rightarrow> (Blocked, emit [Prompted prompt] w)
      | l # ls \<Rightarrow> (Returned l, (emit [Prompted prompt] w)\<lparr>stdin := ls\<rparr>))"

definition read_file :: "string \<Rightarrow> world \<Rightarrow> string outcome \<times> world" where
  "read_file path w =
     (case map_of (files w) path of
        None \<Rightarrow> (Raised IOError, w)
      | Some text \<Rightarrow> (Returned text, emit [FileRead path] w))"

section \<open>argus/debug/debugger.py\<close>

text \<open>The \<^verbatim>\<open>debug\<close> tuple of argus/config.py: \<^verbatim>\<open>flag ip port authkey\<close>.\<close>

record debug_config =
  flag :: bool
  ip :: string
  port :: int
  authkey :: string

text \<open>The fields \<^verbatim>\<open>BaseDebugger.__init__\<close> copies from the config.\<close>

record basic_debugger =
  d_ip :: string
  d_port :: int
  d_authkey :: string

definition BaseDebugger_init :: "debug_config \<Rightarrow> basic_debugger" where
  "BaseDebugger_init config = \<lparr>d_ip = ip config, d_port = port config, d_authkey = authkey config\<rparr>"

datatype debugger = EmptyDebugger | BasicDebugger basic_debugger

abbreviation PAUSE :: string where "PAUSE \<equiv> ''pause''"
abbreviation RESUME :: string where "RESUME \<equiv> ''resume''"

subsection \<open>EmptyDebugger\<close>

definition empty_pause :: "pyval list \<Rightarrow> world \<Rightarrow> pyval outcome \<times> world" where
  "empty_pause args w = (Returned PyNone, w)"

definition empty_action_before_method :: "string \<Rightarrow> world \<Rightarrow> pyval outcome \<times> world" where
  "empty_action_before_method func_name w = (Returned PyNone, w)"

definition empty_action_after_method :: "string \<Rightarrow> world \<Rightarrow> pyval outcome \<times> world" where
  "empty_action_after_method func_name w = (Returned PyNone, w)"

subsection \<open>BasicDebugger\<close>

text \<open>
  \<^verbatim>\<open>_new_client\<close>: the handler of \<^verbatim>\<open>AuthenticationError\<close> is
  \<^verbatim>\<open>raise self._log.exception(...)\<close>, so what is raised is the logger's return value. The two
  adjacent string literals of the source are concatenated without a space.
\<close>

definition new_client :: "basic_debugger \<Rightarrow> world \<Rightarrow> nat outcome \<times> world" where
  "new_client self w =
     except (Client (d_ip self, d_port self) (d_authkey self) w) AuthenticationError
       (\<lambda>w1. and_then
          (log_exception ''AuthenticationError - Client creationfailed. Check authentication key!'' w1)
          (\<lambda>v w2. (Raised (py_raise v), w2)))"

definition notice_server :: "basic_debugger \<Rightarrow> nat \<Rightarrow> string \<Rightarrow> string \<Rightarrow> world \<Rightarrow> pyval outcome \<times> world" where
  "notice_server self client action msg w =
     except
       (and_then (send_bytes client action w) (\<lambda>_ w1. send_bytes client msg w1))
       ValueError
       (\<lambda>w1. log_exception ''ValueError - Message has more than 32MB.'' w1)"

text \<open>
  \<^verbatim>\<open>pause\<close>: \<^verbatim>\<open>client\<close> is a local variable and the only reference to the connection, so
  the connection is freed when the call is over, whether \<^verbatim>\<open>client.close()\<close> was called or
  not.
\<close>

definition pause :: "basic_debugger \<Rightarrow> string \<Rightarrow> world \<Rightarrow> pyval outcome \<times> world" where
  "pause self msg w =
     and_then (new_client self w) (\<lambda>client w1.
       discard client
         (and_then (notice_server self client PAUSE msg w1) (\<lambda>_ w2.
          and_then (recv_bytes client w2) (\<lambda>m w3.
            if m = RESUME then close client w3 else (Returned PyNone, w3)))))"

definition basic_action_before_method :: "basic_debugger \<Rightarrow> string \<Rightarrow> world \<Rightarrow> pyval outcome \<times> world" where
  "basic_action_before_method self func_name w =
     pause self (''We are before method '' @ func_name @ ''!'') w"

definition basic_action_after_method :: "basic_debugger \<Rightarrow> string \<Rightarrow> world \<Rightarrow> pyval outcome \<times> world" where
  "basic_action_after_method self func_name w =
     pause self (''We are after method '' @ func_name @ ''!'') w"

subsection \<open>BaseDebugger.wait\<close>

text \<open>Method dispatch on the class of the debugger.\<close>

fun action_before_method :: "debugger \<Rightarrow> string \<Rightarrow> world \<Rightarrow> pyval outcome \<times> world" where
  "action_before_method EmptyDebugger func_name w = empty_action_before_method func_name w"
| "action_before_method (BasicDebugger self) func_name w = basic_action_before_method self func_name w"

fun action_after_method :: "debugger \<Rightarrow> string \<Rightarrow> world \<Rightarrow> pyval outcome \<times> world" where
  "action_after_method EmptyDebugger func_name w = empty_action_after_method func_name w"
| "action_after_method (BasicDebugger self) func_name w = basic_action_after_method self func_name w"

text \<open>
  A wrapped function: its \<^verbatim>\<open>__name__\<close> and what a call with given positional and keyword
  arguments comes to. The call is recorded in the trace as \<open>Invoked\<close>.
\<close>

record operation =
  op_name :: string
  op_body :: "pyval list \<Rightarrow> (string \<times> pyval) list \<Rightarrow> pyval outcome"

definition invoke :: "operation \<Rightarrow> pyval list \<Rightarrow> (string \<times> pyval) list \<Rightarrow> world \<Rightarrow> pyval outcome \<times> world" where
  "invoke func args kwargs w = (op_body func args kwargs, emit [Invoked (op_name func) args kwargs] w)"

text \<open>
  \<^verbatim>\<open>wait(func)\<close> returns \<^verbatim>\<open>_inner\<close>; \<open>wait self func\<close> applied to the arguments is the call
  of \<^verbatim>\<open>_inner\<close>. Its body has no \<^verbatim>\<open>return\<close> statement.
\<close>

definition wait :: "debugger \<Rightarrow> operation \<Rightarrow> pyval list \<Rightarrow> (string \<times> pyval) list \<Rightarrow> world \<Rightarrow> pyval outcome \<times> world" where
  "wait self func args kwargs w =
     and_then (action_before_method self (op_name func) w) (\<lambda>_ w1.
     and_then (invoke func args kwargs w1) (\<lambda>_ w2.
     and_then (action_after_method self (op_name func) w2) (\<lambda>_ w3.
       (Returned PyNone, w3))))"

subsection \<open>Debugger.get\<close>

definition Debugger_get :: "debug_config \<Rightarrow> world \<Rightarrow> debugger outcome \<times> world" where
  "Debugger_get config w =
     (if flag config then
        and_then (read_file ''argus/debug/disclaimer.txt'' w) (\<lambda>text w1.
        and_then (log_warning text w1) (\<lambda>_ w2.
          (Returned (BasicDebugger (BaseDebugger_init config)), w2)))
      else (Returned EmptyDebugger, w))"

section \<open>argus/debug/listener.py\<close>

record basic_listener =
  l_ip :: string
  l_port :: int
  l_authkey :: string

definition new_listener :: "basic_listener \<Rightarrow> world \<Rightarrow> listener outcome \<times> world" where
  "new_listener self w =
     except (Listener (l_ip self, l_port self) (l_authkey self) w) AuthenticationError
       (\<lambda>w1. and_then
          (log_exception ''AuthenticationError - Listener creationfailed. Check authentication key!'' w1)
          (\<lambda>v w2. (Raised (py_raise v), w2)))"

text \<open>
  The assignment \<^verbatim>\<open>conn = listener.accept()\<close>: once \<^verbatim>\<open>accept\<close> has returned, \<^verbatim>\<open>conn\<close> is
  bound to the new connection, and the connection it referred to before is freed.
\<close>

definition bind_conn :: "nat \<Rightarrow> world \<Rightarrow> nat outcome \<times> world" where
  "bind_conn c w =
     (Returned c, (case held w of None \<Rightarrow> w | Some old \<Rightarrow> release old w)\<lparr>held := Some c\<rparr>)"

text \<open>
  One pass through the body of the \<^verbatim>\<open>while True\<close> loop of \<^verbatim>\<open>BasicListener.start\<close>.
\<close>

definition iteration :: "listener \<Rightarrow> world \<Rightarrow> pyval outcome \<times> world" where
  "iteration l w =
     and_then (accept l w) (\<lambda>c w0.
     and_then (bind_conn c w0) (\<lambda>conn w1.
     and_then (recv_bytes conn w1) (\<lambda>typec w2.
     and_then (recv_bytes conn w2) (\<lambda>msg w3.
       if typec = PAUSE then
         and_then (info msg w3) (\<lambda>_ w4.
         and_then (info ''Enter the number of what you want to do:'' w4) (\<lambda>_ w5.
         and_then (info ''1. Continue'' w5) (\<lambda>_ w6.
         and_then (raw_input ''Prompt: '' w6) (\<lambda>option w7.
           if option = ''1'' then
             and_then (info ''Argus is resumed!'' w7) (\<lambda>_ w8.
               except (send_bytes conn RESUME w8) ValueError
                 (\<lambda>w9. log_exception ''ValueError - Message has more than 32MB.'' w9))
           else (Returned PyNone, w7)))))
       else (Returned PyNone, w3)))))"

text \<open>
  When an exception leaves \<^verbatim>\<open>start\<close>, its frame goes and with it \<^verbatim>\<open>conn\<close>.
\<close>

definition unwind :: "world \<Rightarrow> world" where
  "unwind w = (case held w of None \<Rightarrow> w | Some c \<Rightarrow> release c w)\<lparr>held := None\<rparr>"

text \<open>
  The loop itself. Each pass that comes back takes one peer from \<open>remote\<close>, so the loop
  ends, and it can only end waiting (\<open>Blocked\<close>: in \<^verbatim>\<open>accept\<close>, in \<^verbatim>\<open>recv_bytes\<close> or at the
  prompt) or with an exception.
\<close>

function start_loop :: "listener \<Rightarrow> world \<Rightarrow> pyval outcome \<times> world" where
  "start_loop l w =
     (case iteration l w of
        (Returned v, w') \<Rightarrow> start_loop l w'
      | (Raised e, w') \<Rightarrow> (Raised e, unwind w')
      | (Blocked, w') \<Rightarrow> (Blocked, w'))"
  by pat_completeness auto
termination
proof (relation "measure (\<lambda>(l, w). length (remote w))")
  show "wf (measure (\<lambda>(l, w). length (remote w)))" by simp
next
  fix l :: listener and w :: world and r w' v
  assume "(r, w') = iteration l w" and "r = Returned v"
  then have "iteration l w = (Returned v, w')" by simp
  then have "length (remote w') < length (remote w)"
    by (auto simp: iteration_def accept_def bind_conn_def release_def recv_bytes_def info_def
          raw_input_def send_bytes_def log_exception_def emit_def establish_def
        split: list.splits option.splits if_splits prod.splits)
  then show "((l, w'), (l, w)) \<in> measure (\<lambda>(l, w). length (remote w))" by simp
qed

declare start_loop.simps [simp del]

definition start :: "basic_listener \<Rightarrow> world \<Rightarrow> pyval outcome \<times> world" where
  "start self w = and_then (new_listener self w) (\<lambda>listener w1. start_loop listener w1)"

section \<open>Reading traces\<close>

text \<open>The framed messages a process sent on connection \<open>c\<close>: what arrives at the other end.\<close>

fun sent_on :: "nat \<Rightarrow> event list \<Rightarrow> string list" where
  "sent_on c [] = []"
| "sent_on c (Sent c' m # es) = (if c' = c then m # sent_on c es else sent_on c es)"
| "sent_on c (e # es) = sent_on c es"


text \<open>The events a step added to the trace.\<close>

definition new_events :: "world \<Rightarrow> world \<Rightarrow> event list" where
  "new_events w w' = drop (length (trace w)) (trace w')"

section \<open>Scenarios\<close>

text \<open>
  The defaults of the \<^verbatim>\<open>debug\<close> section of the configuration (argus/config.py): the console
  on 127.0.0.1:5555 with the secret "authkey".
\<close>

definition default_debugger :: basic_debugger where
  "default_debugger = \<lparr>d_ip = ''127.0.0.1'', d_port = 5555, d_authkey = ''authkey''\<rparr>"

definition default_config :: debug_config where
  "default_config = \<lparr>flag = False, ip = ''127.0.0.1'', port = 5555, authkey = ''authkey''\<rparr>"

definition default_listener :: listener where
  "default_listener = \<lparr>bound_to = (''127.0.0.1'', 5555), listener_key = ''authkey''\<rparr>"

text \<open>
  A peer that holds the default secret, sends the given messages and then stays silent with
  the connection open: the console as a subject meets it, or a client as the console does.
\<close>

definition answering :: "string list \<Rightarrow> peer" where
  "answering ms = \<lparr>secret = ''authkey'', says = ms, hangs_up = False\<rparr>"

definition idle_world :: world where
  "idle_world =
     \<lparr>remote = [], inbox = [], open_conns = [], held = None, fresh = 0, stdin = [],
      files = [(''argus/debug/disclaimer.txt'', ''Debug mode is on.'')], trace = []\<rparr>"

text \<open>
  Three operations: \<^verbatim>\<open>answer\<close> returns 42 whatever its arguments, \<^verbatim>\<open>failing\<close> raises,
  \<^verbatim>\<open>stuck\<close> never comes back.
\<close>

definition answer :: operation where
  "answer = \<lparr>op_name = ''answer'', op_body = (\<lambda>args kwargs. Returned (PyInt 42))\<rparr>"

definition failing :: operation where
  "failing = \<lparr>op_name = ''failing'', op_body = (\<lambda>args kwargs. Raised IOError)\<rparr>"

definition stuck :: operation where
  "stuck = \<lparr>op_name = ''stuck'', op_body = (\<lambda>args kwargs. Blocked)\<rparr>"

text \<open>
  The console with one client that asks for a pause and an operator who types "1"; and the
  console with a first client whose type tag is not "pause", followed by a pausing client.
\<close>

definition console_world :: world where
  "console_world = idle_world\<lparr>remote := [answering [PAUSE, ''before method install_cbinit'']],
                              stdin := [''1'']\<rparr>"


section \<open>Basic facts\<close>

lemmas prims = Client_def accept_def send_bytes_def recv_bytes_def close_def release_def
  log_exception_def log_warning_def info_def raw_input_def read_file_def emit_def establish_def
  bind_conn_def

lemma and_then_outcome:
  "fst (and_then r k) = Returned v \<Longrightarrow> \<exists>x w. r = (Returned x, w) \<and> fst (k x w) = Returned v"
proof (cases r)
  case (Pair out w)
  assume "fst (and_then r k) = Returned v"
  with Pair show ?thesis by (cases out) auto
qed



lemma pause_resumed:
  assumes "remote w = p # rest" and "secret p = d_authkey self" and "says p = RESUME # ms"
  shows "pause self msg w =
    (Returned PyNone,
     w\<lparr>remote := rest,
       inbox := (fresh w, ms, hangs_up p) # (fresh w, RESUME # ms, hangs_up p) # inbox w,
       open_conns := removeAll (fresh w) (open_conns w),
       fresh := Suc (fresh w),
       trace := trace w @ [Connected (fresh w), Sent (fresh w) PAUSE, Sent (fresh w) msg,
                           Received (fresh w) RESUME, Closed (fresh w), Released (fresh w)]\<rparr>)"
  using assms by (simp add: pause_def new_client_def notice_server_def prims)

lemma pause_other_message:
  assumes "remote w = p # rest" and "secret p = d_authkey self" and "says p = m # ms"
    and "m \<noteq> RESUME"
  shows "pause self msg w =
    (Returned PyNone,
     w\<lparr>remote := rest,
       inbox := (fresh w, ms, hangs_up p) # (fresh w, m # ms, hangs_up p) # inbox w,
       open_conns := removeAll (fresh w) (open_conns w),
       fresh := Suc (fresh w),
       trace := trace w @ [Connected (fresh w), Sent (fresh w) PAUSE, Sent (fresh w) msg,
                           Received (fresh w) m, Released (fresh w)]\<rparr>)"
  using assms by (simp add: pause_def new_client_def notice_server_def prims)

lemma pause_unanswered:
  assumes "remote w = p # rest" and "secret p = d_authkey self" and "says p = []"
    and "\<not> hangs_up p"
  shows "pause self msg w =
    (Blocked,
     w\<lparr>remote := rest,
       inbox := (fresh w, [], False) # inbox w,
       open_conns := fresh w # open_conns w,
       fresh := Suc (fresh w),
       trace := trace w @ [Connected (fresh w), Sent (fresh w) PAUSE, Sent (fresh w) msg]\<rparr>)"
  using assms by (simp add: pause_def new_client_def notice_server_def prims)

lemma pause_hung_up:
  assumes "remote w = p # rest" and "secret p = d_authkey self" and "says p = []"
    and "hangs_up p"
  shows "pause self msg w =
    (Raised EOFError,
     w\<lparr>remote := rest,
       inbox := (fresh w, [], True) # inbox w,
       open_conns := removeAll (fresh w) (open_conns w),
       fresh := Suc (fresh w),
       trace := trace w @ [Connected (fresh w), Sent (fresh w) PAUSE, Sent (fresh w) msg,
                           Released (fresh w)]\<rparr>)"
  using assms by (simp add: pause_def new_client_def notice_server_def prims)

text \<open>What \<^verbatim>\<open>pause\<close> puts on the wire does not depend on what comes back.\<close>

lemma pause_sends:
  assumes "remote s = p # rest" and "secret p = d_authkey self"
  shows "sent_on (fresh s) (new_events s (snd (pause self msg s))) = [PAUSE, msg]"
proof (cases "says p")
  case Nil
  show ?thesis
  proof (cases "hangs_up p")
    case True
    show ?thesis by (simp add: pause_hung_up [OF assms Nil True] new_events_def)
  next
    case False
    show ?thesis by (simp add: pause_unanswered [OF assms Nil False] new_events_def)
  qed
next
  case (Cons m ms)
  show ?thesis
  proof (cases "m = RESUME")
    case True
    with Cons have "says p = RESUME # ms" by simp
    from pause_resumed [OF assms this] show ?thesis by (simp add: new_events_def)
  next
    case False
    from pause_other_message [OF assms Cons False] show ?thesis by (simp add: new_events_def)
  qed
qed

text \<open>
  One pass of the console loop: on a pause request answered by "1", on any other tag, and
  with no client to come.
\<close>

lemma iteration_pause_continue:
  assumes "remote w = p # rest" and "secret p = listener_key l"
    and "says p = PAUSE # msg # ms" and "stdin w = ''1'' # ins"
  shows "iteration l w =
    (Returned PyNone,
     (case held w of None \<Rightarrow> w | Some old \<Rightarrow> release old w)
     \<lparr>remote := rest,
       inbox := (fresh w, ms, hangs_up p) # (fresh w, msg # ms, hangs_up p)
                # (fresh w, PAUSE # msg # ms, hangs_up p) # inbox w,
       open_conns := (case held w of None \<Rightarrow> fresh w # open_conns w
                      | Some old \<Rightarrow> removeAll old (fresh w # open_conns w)),
       held := Some (fresh w),
       fresh := Suc (fresh w),
       stdin := ins,
       trace := trace w @ Accepted (fresh w) #
         (case held w of None \<Rightarrow> [] | Some old \<Rightarrow> [Released old]) @
         [Received (fresh w) PAUSE, Received (fresh w) msg,
          Info msg, Info ''Enter the number of what you want to do:'', Info ''1. Continue'',
          Prompted ''Prompt: '', Info ''Argus is resumed!'', Sent (fresh w) RESUME]\<rparr>)"
  using assms by (cases "held w") (simp_all add: iteration_def prims)


lemma iteration_idle:
  assumes "remote w = []"
  shows "iteration l w = (Blocked, w)"
  using assms by (simp add: iteration_def accept_def)

lemma start_loop_step:
  "iteration l w = (Returned v, w') \<Longrightarrow> start_loop l w = start_loop l w'"
  by (subst start_loop.simps) simp

lemma start_loop_idle:
  assumes "remote w = []"
  shows "start_loop l w = (Blocked, w)"
  by (subst start_loop.simps) (simp add: iteration_idle [OF assms])

text \<open>
  What a pass can do at all: it sends only on the connection it accepts, it never calls
  \<^verbatim>\<open>close\<close>, and the only connection it frees is the one \<^verbatim>\<open>conn\<close> referred to before. If
  \<^verbatim>\<open>conn\<close> referred to a connection and a client arrives, that connection is freed in the
  pass, unless \<^verbatim>\<open>accept\<close> raises with \<^verbatim>\<open>conn\<close> still bound.
\<close>

lemma sent_on_append: "sent_on c (xs @ ys) = sent_on c xs @ sent_on c ys"
  by (induction c xs rule: sent_on.induct) simp_all

lemma iteration_effect:
  "\<exists>es. trace (snd (iteration l w)) = trace w @ es
     \<and> (\<forall>c. c \<noteq> fresh w \<longrightarrow> sent_on c es = [])
     \<and> (\<forall>c. Closed c \<notin> set es)
     \<and> (\<forall>c. Released c \<in> set es \<longrightarrow> held w = Some c)
     \<and> (\<forall>c. held w = Some c \<and> remote w \<noteq> [] \<longrightarrow>
           Released c \<in> set es
           \<or> (fst (iteration l w) = Raised AuthenticationError \<and> held (snd (iteration l w)) = Some c))"
  by (auto simp: iteration_def prims split: list.splits option.splits prod.splits)

lemma iteration_state:
  "fresh w \<le> fresh (snd (iteration l w))
   \<and> (\<forall>c. held (snd (iteration l w)) = Some c \<longrightarrow> held w = Some c \<or> c = fresh w)"
  by (auto simp: iteration_def prims split: list.splits option.splits prod.splits)

lemma unwind_trace:
  "trace (unwind w) = trace w @ (case held w of None \<Rightarrow> [] | Some c \<Rightarrow> [Released c])"
  by (simp add: unwind_def release_def emit_def split: option.split)

text \<open>
  The same for the whole run of the loop, by induction along the loop: nothing is ever sent
  on a connection accepted earlier, none is closed by \<^verbatim>\<open>close\<close>, and the connection \<^verbatim>\<open>conn\<close>
  refers to is freed as soon as another client arrives.
\<close>

lemma start_loop_effect:
  "\<exists>es. trace (snd (start_loop l w)) = trace w @ es
     \<and> (\<forall>c<fresh w. sent_on c es = [] \<and> Closed c \<notin> set es)
     \<and> (\<forall>c. held w = Some c \<and> remote w \<noteq> [] \<longrightarrow> Released c \<in> set es)"
proof (induction l w rule: start_loop.induct)
  case (1 l w)
  obtain r w' where it: "iteration l w = (r, w')" by (cases "iteration l w")
  from iteration_effect [of l w] it obtain es1
    where es1: "trace w' = trace w @ es1"
      and quiet1: "\<forall>c. c \<noteq> fresh w \<longrightarrow> sent_on c es1 = []"
      and open1: "\<forall>c. Closed c \<notin> set es1"
      and drop1: "\<forall>c. held w = Some c \<and> remote w \<noteq> [] \<longrightarrow>
           Released c \<in> set es1 \<or> (r = Raised AuthenticationError \<and> held w' = Some c)"
    by auto
  show ?case
  proof (cases r)
    case (Returned v)
    with it have sl: "start_loop l w = start_loop l w'" by (simp add: start_loop_step)
    from "1.IH" [OF it [symmetric] Returned] obtain es2
      where es2: "trace (snd (start_loop l w')) = trace w' @ es2"
        and quiet2: "\<forall>c<fresh w'. sent_on c es2 = [] \<and> Closed c \<notin> set es2"
      by auto
    from iteration_state [of w l] it have "fresh w \<le> fresh w'" by simp
    with quiet1 quiet2 open1 have "\<forall>c<fresh w. sent_on c (es1 @ es2) = [] \<and> Closed c \<notin> set (es1 @ es2)"
      by (auto simp: sent_on_append)
    moreover from drop1 Returned
    have "\<forall>c. held w = Some c \<and> remote w \<noteq> [] \<longrightarrow> Released c \<in> set (es1 @ es2)"
      by auto
    moreover have "trace (snd (start_loop l w)) = trace w @ (es1 @ es2)"
      by (simp add: sl es2 es1)
    ultimately show ?thesis by blast
  next
    case (Raised e)
    with it have sl: "start_loop l w = (Raised e, unwind w')"
      by (subst start_loop.simps) simp
    let ?es2 = "case held w' of None \<Rightarrow> [] | Some c \<Rightarrow> [Released c]"
    have "trace (snd (start_loop l w)) = trace w @ (es1 @ ?es2)"
      by (simp add: sl unwind_trace es1)
    moreover from quiet1 open1
    have "\<forall>c<fresh w. sent_on c (es1 @ ?es2) = [] \<and> Closed c \<notin> set (es1 @ ?es2)"
      by (auto simp: sent_on_append split: option.split)
    moreover from drop1
    have "\<forall>c. held w = Some c \<and> remote w \<noteq> [] \<longrightarrow> Released c \<in> set (es1 @ ?es2)"
      by auto
    ultimately show ?thesis by blast
  next
    case Blocked
    with it have sl: "start_loop l w = (Blocked, w')" by (subst start_loop.simps) simp
    have "trace (snd (start_loop l w)) = trace w @ es1" by (simp add: sl es1)
    moreover from quiet1 open1 have "\<forall>c<fresh w. sent_on c es1 = [] \<and> Closed c \<notin> set es1"
      by auto
    moreover from drop1 Blocked
    have "\<forall>c. held w = Some c \<and> remote w \<noteq> [] \<longrightarrow> Released c \<in> set es1"
      by auto
    ultimately show ?thesis by blast
  qed
qed

lemma start_loop_never_returns: "fst (start_loop l w) \<noteq> Returned v"
proof (induction l w rule: start_loop.induct)
  case (1 l w)
  obtain r w' where it: "iteration l w = (r, w')" by (cases "iteration l w")
  show ?case
  proof (cases r)
    case (Returned x)
    with it have "start_loop l w = start_loop l w'" by (simp add: start_loop_step)
    with "1.IH" [OF it [symmetric] Returned] show ?thesis by simp
  next
    case (Raised e)
    with it have "start_loop l w = (Raised e, unwind w')" by (subst start_loop.simps) simp
    then show ?thesis by simp
  next
    case Blocked
    with it have "start_loop l w = (Blocked, w')" by (subst start_loop.simps) simp
    then show ?thesis by simp
  qed
qed

text \<open>
  What the run of the loop does after a pass that came back: with no client to come it
  waits in \<^verbatim>\<open>accept\<close>; otherwise its next event is the acceptance of the next client, or the
  rejection of its secret.
\<close>

lemma iteration_first_event:
  assumes "remote w = q # qs"
  shows "\<exists>es. trace (snd (iteration l w)) =
            trace w @ (if secret q = listener_key l then Accepted (fresh w) else AuthRejected) # es"
  using assms
  by (auto simp: iteration_def prims split: list.splits option.splits prod.splits)

lemma start_loop_extends_pass:
  "\<exists>es. trace (snd (start_loop l w)) = trace (snd (iteration l w)) @ es"
proof -
  obtain r w' where it: "iteration l w = (r, w')" by (cases "iteration l w")
  show ?thesis
  proof (cases r)
    case (Returned v)
    with it have "start_loop l w = start_loop l w'" by (simp add: start_loop_step)
    with start_loop_effect [of l w'] it show ?thesis by auto
  next
    case (Raised e)
    with it have "start_loop l w = (Raised e, unwind w')" by (subst start_loop.simps) simp
    with it show ?thesis by (simp add: unwind_trace)
  next
    case Blocked
    with it have "start_loop l w = (Blocked, w')" by (subst start_loop.simps) simp
    with it show ?thesis by simp
  qed
qed

lemma start_loop_next:
  assumes "iteration l w = (Returned v, w')" and "trace w' = trace w @ pass"
  shows "take (Suc (length pass)) (new_events w (snd (start_loop l w))) =
     pass @ (case remote w' of [] \<Rightarrow> []
             | q # qs \<Rightarrow> [if secret q = listener_key l then Accepted (fresh w') else AuthRejected])"
proof (cases "remote w'")
  case Nil
  then have "start_loop l w' = (Blocked, w')" by (rule start_loop_idle)
  with start_loop_step [OF assms(1)] have "start_loop l w = (Blocked, w')" by simp
  then show ?thesis by (simp add: new_events_def assms(2) Nil)
next
  case (Cons q qs)
  from iteration_first_event [OF Cons, of l] obtain es1 where
    1: "trace (snd (iteration l w')) =
          trace w' @ (if secret q = listener_key l then Accepted (fresh w') else AuthRejected) # es1"
    by blast
  from start_loop_extends_pass [of l w'] obtain es2 where
    2: "trace (snd (start_loop l w')) = trace (snd (iteration l w')) @ es2"
    by blast
  have "trace (snd (start_loop l w)) =
      trace w @ pass @ (if secret q = listener_key l then Accepted (fresh w') else AuthRejected) # es1 @ es2"
    by (simp add: start_loop_step [OF assms(1)] 2 1 assms(2))
  then show ?thesis by (simp add: new_events_def Cons)
qed

text \<open>\<^verbatim>\<open>BasicListener.start\<close> is the loop, once the listener is bound.\<close>

lemma start_is_loop:
  "start self w =
     start_loop \<lparr>bound_to = (l_ip self, l_port self), listener_key = l_authkey self\<rparr> w"
  by (simp add: start_def new_listener_def Listener_def)

lemma start_never_returns: "fst (start self w) \<noteq> Returned v"
  by (simp add: start_is_loop start_loop_never_returns)


section \<open>The interception wrapper\<close>

text \<open>
  Claim C1, as the specification states it: the instrumented callable returns the value the
  wrapped operation returns; wrapping an operation that returns 42 gives a call that returns
  42. It fails: \<^verbatim>\<open>_inner\<close> calls \<^verbatim>\<open>func\<close> and drops what it returns, so the call of the
  instrumented \<open>answer\<close> returns \<^verbatim>\<open>None\<close>.
\<close>

theorem wait_counterexample:
  "op_body answer [] [] = Returned (PyInt 42)
   \<and> fst (wait EmptyDebugger answer [] [] idle_world) = Returned PyNone
   \<and> fst (wait EmptyDebugger answer [] [] idle_world) \<noteq> Returned (PyInt 42)"
  by (simp add: wait_def answer_def invoke_def empty_action_before_method_def
        empty_action_after_method_def)

text \<open>
  Claim C1, amended: whatever the strategy, the operation and the arguments, the
  instrumented call never returns anything but \<^verbatim>\<open>None\<close> (it returns \<^verbatim>\<open>None\<close>, raises, or
  waits for ever); and under the no-op strategy, when the operation returns, the call
  invokes the operation once on the original arguments and returns \<^verbatim>\<open>None\<close>.
\<close>

theorem wait_returns_None:
  "fst (wait self func args kwargs w) \<in> insert (Returned PyNone) (insert Blocked (range Raised))
   \<and> (op_body func args kwargs = Returned v \<longrightarrow>
        wait EmptyDebugger func args kwargs w =
          (Returned PyNone, emit [Invoked (op_name func) args kwargs] w))"
proof
  show "fst (wait self func args kwargs w) \<in> insert (Returned PyNone) (insert Blocked (range Raised))"
  proof (cases "fst (wait self func args kwargs w)")
    case (Returned r)
    then have "r = PyNone"
      unfolding wait_def by (auto dest!: and_then_outcome)
    with Returned show ?thesis by simp
  qed simp_all
next
  show "op_body func args kwargs = Returned v \<longrightarrow>
        wait EmptyDebugger func args kwargs w =
          (Returned PyNone, emit [Invoked (op_name func) args kwargs] w)"
    by (simp add: wait_def invoke_def empty_action_before_method_def empty_action_after_method_def)
qed

text \<open>Claim C1, amended, at the operation that returns 42.\<close>

theorem wait_returns_None_witness:
  "op_body answer [PyInt 1] [] = Returned (PyInt 42)
   \<and> wait EmptyDebugger answer [PyInt 1] [] idle_world =
       (Returned PyNone, emit [Invoked ''answer'' [PyInt 1] []] idle_world)"
  using wait_returns_None [of EmptyDebugger answer "[PyInt 1]" "[]" idle_world "PyInt 42"]
  by (simp add: answer_def)

text \<open>
  Claim C9, as the specification states it: every invocation of an instrumented operation
  goes through the before-suspension, the operation and the after-suspension, two rendezvous
  under the interactive strategy. It fails for an operation that raises: there is the
  rendezvous before the call, the invocation, and then the exception leaves the wrapper; the
  second console is never contacted.
\<close>

theorem wait_stops_when_operation_raises:
  "fst (wait (BasicDebugger default_debugger) failing [] []
         (idle_world\<lparr>remote := [answering [RESUME], answering [RESUME]]\<rparr>)) = Raised IOError
   \<and> trace (snd (wait (BasicDebugger default_debugger) failing [] []
         (idle_world\<lparr>remote := [answering [RESUME], answering [RESUME]]\<rparr>))) =
       [Connected 0, Sent 0 PAUSE, Sent 0 ''We are before method failing!'',
        Received 0 RESUME, Closed 0, Released 0, Invoked ''failing'' [] []]
   \<and> remote (snd (wait (BasicDebugger default_debugger) failing [] []
         (idle_world\<lparr>remote := [answering [RESUME], answering [RESUME]]\<rparr>))) = [answering [RESUME]]"
  by (simp add: wait_def invoke_def basic_action_before_method_def pause_def new_client_def
        notice_server_def prims default_debugger_def idle_world_def answering_def failing_def)

text \<open>
  Claim C9, amended: the suspension points of an instrumented call are strictly sequential,
  each stage running only once the one before has completed. The before-suspension comes
  first, and when it does not come back (it raises or waits for ever) the call ends there.
  When it returns, the operation is invoked on the original arguments; when the operation
  raises or never comes back, so does the call, with no after-suspension. When the operation
  returns, the after-suspension follows, and the call returns \<^verbatim>\<open>None\<close> once it has returned.
  Under the interactive strategy the two suspensions are calls of \<^verbatim>\<open>pause\<close> whose message
  names the operation as a point before, respectively after, the call; with an accepted
  secret, "resume" for an answer both times and an operation that returns, what the call
  does is exactly: the rendezvous before, the invocation, the rendezvous after.
\<close>

theorem wait_sequence:
  "((\<forall>x. fst (action_before_method self (op_name func) w) \<noteq> Returned x) \<longrightarrow>
      wait self func args kwargs w = action_before_method self (op_name func) w)
   \<and> (action_before_method self (op_name func) w = (Returned x, w1)
        \<and> op_body func args kwargs = Raised e \<longrightarrow>
      wait self func args kwargs w = (Raised e, emit [Invoked (op_name func) args kwargs] w1))
   \<and> (action_before_method self (op_name func) w = (Returned x, w1)
        \<and> op_body func args kwargs = Blocked \<longrightarrow>
      wait self func args kwargs w = (Blocked, emit [Invoked (op_name func) args kwargs] w1))
   \<and> (action_before_method self (op_name func) w = (Returned x, w1)
        \<and> op_body func args kwargs = Returned v \<longrightarrow>
      wait self func args kwargs w =
        and_then (action_after_method self (op_name func)
                    (emit [Invoked (op_name func) args kwargs] w1))
          (\<lambda>_ w3. (Returned PyNone, w3)))
   \<and> action_before_method (BasicDebugger d) (op_name func) w =
        pause d (''We are before method '' @ op_name func @ ''!'') w
   \<and> action_after_method (BasicDebugger d) (op_name func) w =
        pause d (''We are after method '' @ op_name func @ ''!'') w
   \<and> (remote w = p1 # p2 # rest \<and> secret p1 = d_authkey d \<and> secret p2 = d_authkey d
        \<and> says p1 = RESUME # ms1 \<and> says p2 = RESUME # ms2
        \<and> op_body func args kwargs = Returned v \<longrightarrow>
      fst (wait (BasicDebugger d) func args kwargs w) = Returned PyNone
      \<and> new_events w (snd (wait (BasicDebugger d) func args kwargs w)) =
          [Connected (fresh w), Sent (fresh w) PAUSE,
           Sent (fresh w) (''We are before method '' @ op_name func @ ''!''),
           Received (fresh w) RESUME, Closed (fresh w), Released (fresh w),
           Invoked (op_name func) args kwargs,
           Connected (Suc (fresh w)), Sent (Suc (fresh w)) PAUSE,
           Sent (Suc (fresh w)) (''We are after method '' @ op_name func @ ''!''),
           Received (Suc (fresh w)) RESUME, Closed (Suc (fresh w)), Released (Suc (fresh w))])"
proof (intro conjI impI)
  assume "\<forall>x. fst (action_before_method self (op_name func) w) \<noteq> Returned x"
  then show "wait self func args kwargs w = action_before_method self (op_name func) w"
    unfolding wait_def
    by (cases "action_before_method self (op_name func) w";
        cases "fst (action_before_method self (op_name func) w)") auto
next
  assume "action_before_method self (op_name func) w = (Returned x, w1)
        \<and> op_body func args kwargs = Raised e"
  then show "wait self func args kwargs w = (Raised e, emit [Invoked (op_name func) args kwargs] w1)"
    by (simp add: wait_def invoke_def)
next
  assume "action_before_method self (op_name func) w = (Returned x, w1)
        \<and> op_body func args kwargs = Blocked"
  then show "wait self func args kwargs w = (Blocked, emit [Invoked (op_name func) args kwargs] w1)"
    by (simp add: wait_def invoke_def)
next
  assume "action_before_method self (op_name func) w = (Returned x, w1)
        \<and> op_body func args kwargs = Returned v"
  then show "wait self func args kwargs w =
        and_then (action_after_method self (op_name func)
                    (emit [Invoked (op_name func) args kwargs] w1))
          (\<lambda>_ w3. (Returned PyNone, w3))"
    by (simp add: wait_def invoke_def)
next
  show "action_before_method (BasicDebugger d) (op_name func) w =
        pause d (''We are before method '' @ op_name func @ ''!'') w"
    by (simp add: basic_action_before_method_def)
next
  show "action_after_method (BasicDebugger d) (op_name func) w =
        pause d (''We are after method '' @ op_name func @ ''!'') w"
    by (simp add: basic_action_after_method_def)
next
  assume h: "remote w = p1 # p2 # rest \<and> secret p1 = d_authkey d \<and> secret p2 = d_authkey d
        \<and> says p1 = RESUME # ms1 \<and> says p2 = RESUME # ms2
        \<and> op_body func args kwargs = Returned v"
  let ?w1 = "w\<lparr>remote := p2 # rest,
       inbox := (fresh w, ms1, hangs_up p1) # (fresh w, RESUME # ms1, hangs_up p1) # inbox w,
       open_conns := removeAll (fresh w) (open_conns w),
       fresh := Suc (fresh w),
       trace := trace w @ [Connected (fresh w), Sent (fresh w) PAUSE,
                           Sent (fresh w) (''We are before method '' @ op_name func @ ''!''),
                           Received (fresh w) RESUME, Closed (fresh w), Released (fresh w)]\<rparr>"
  let ?w2 = "emit [Invoked (op_name func) args kwargs] ?w1"
  have b: "basic_action_before_method d (op_name func) w = (Returned PyNone, ?w1)"
    unfolding basic_action_before_method_def using h
    by (intro pause_resumed) simp_all
  have a: "basic_action_after_method d (op_name func) ?w2 =
     (Returned PyNone,
      ?w2\<lparr>remote := rest,
       inbox := (fresh ?w2, ms2, hangs_up p2) # (fresh ?w2, RESUME # ms2, hangs_up p2) # inbox ?w2,
       open_conns := removeAll (fresh ?w2) (open_conns ?w2),
       fresh := Suc (fresh ?w2),
       trace := trace ?w2 @ [Connected (fresh ?w2), Sent (fresh ?w2) PAUSE,
                           Sent (fresh ?w2) (''We are after method '' @ op_name func @ ''!''),
                           Received (fresh ?w2) RESUME, Closed (fresh ?w2), Released (fresh ?w2)]\<rparr>)"
    unfolding basic_action_after_method_def using h
    by (intro pause_resumed) (simp_all add: emit_def)
  have w: "wait (BasicDebugger d) func args kwargs w =
      and_then (basic_action_after_method d (op_name func) ?w2) (\<lambda>_ w3. (Returned PyNone, w3))"
    using h by (simp add: wait_def b invoke_def)
  show "fst (wait (BasicDebugger d) func args kwargs w) = Returned PyNone"
    unfolding w a by simp
  show "new_events w (snd (wait (BasicDebugger d) func args kwargs w)) =
          [Connected (fresh w), Sent (fresh w) PAUSE,
           Sent (fresh w) (''We are before method '' @ op_name func @ ''!''),
           Received (fresh w) RESUME, Closed (fresh w), Released (fresh w),
           Invoked (op_name func) args kwargs,
           Connected (Suc (fresh w)), Sent (Suc (fresh w)) PAUSE,
           Sent (Suc (fresh w)) (''We are after method '' @ op_name func @ ''!''),
           Received (Suc (fresh w)) RESUME, Closed (Suc (fresh w)), Released (Suc (fresh w))]"
    unfolding w a by (simp add: emit_def new_events_def)
qed

text \<open>
  Claim C9, amended, at concrete calls: a console that never answers the first request; an
  operation that raises, one that never comes back and one that returns, under the no-op
  strategy; and a call with two rendezvous.
\<close>

theorem wait_sequence_witness:
  "(\<forall>x. fst (action_before_method (BasicDebugger default_debugger) (op_name answer)
              (idle_world\<lparr>remote := [answering []]\<rparr>)) \<noteq> Returned x)
   \<and> fst (wait (BasicDebugger default_debugger) answer [] []
            (idle_world\<lparr>remote := [answering []]\<rparr>)) = Blocked
   \<and> trace (snd (wait (BasicDebugger default_debugger) answer [] []
            (idle_world\<lparr>remote := [answering []]\<rparr>))) =
       [Connected 0, Sent 0 PAUSE, Sent 0 ''We are before method answer!'']
   \<and> action_before_method EmptyDebugger (op_name failing) idle_world = (Returned PyNone, idle_world)
   \<and> op_body failing [] [] = Raised IOError
   \<and> wait EmptyDebugger failing [] [] idle_world =
       (Raised IOError, emit [Invoked ''failing'' [] []] idle_world)
   \<and> action_before_method EmptyDebugger (op_name stuck) idle_world = (Returned PyNone, idle_world)
   \<and> op_body stuck [] [] = Blocked
   \<and> wait EmptyDebugger stuck [] [] idle_world =
       (Blocked, emit [Invoked ''stuck'' [] []] idle_world)
   \<and> action_before_method EmptyDebugger (op_name answer) idle_world = (Returned PyNone, idle_world)
   \<and> op_body answer [] [] = Returned (PyInt 42)
   \<and> wait EmptyDebugger answer [] [] idle_world =
       (Returned PyNone, emit [Invoked ''answer'' [] []] idle_world)
   \<and> remote (idle_world\<lparr>remote := [answering [RESUME], answering [RESUME]]\<rparr>) =
       answering [RESUME] # answering [RESUME] # []
   \<and> secret (answering [RESUME]) = d_authkey default_debugger
   \<and> says (answering [RESUME]) = RESUME # []
   \<and> op_body answer [PyInt 7] [(''retries'', PyInt 2)] = Returned (PyInt 42)
   \<and> fst (wait (BasicDebugger default_debugger) answer [PyInt 7] [(''retries'', PyInt 2)]
            (idle_world\<lparr>remote := [answering [RESUME], answering [RESUME]]\<rparr>)) = Returned PyNone
   \<and> new_events (idle_world\<lparr>remote := [answering [RESUME], answering [RESUME]]\<rparr>)
        (snd (wait (BasicDebugger default_debugger) answer [PyInt 7] [(''retries'', PyInt 2)]
            (idle_world\<lparr>remote := [answering [RESUME], answering [RESUME]]\<rparr>))) =
       [Connected 0, Sent 0 PAUSE, Sent 0 ''We are before method answer!'',
        Received 0 RESUME, Closed 0, Released 0,
        Invoked ''answer'' [PyInt 7] [(''retries'', PyInt 2)],
        Connected 1, Sent 1 PAUSE, Sent 1 ''We are after method answer!'',
        Received 1 RESUME, Closed 1, Released 1]"
proof -
  let ?d = "BasicDebugger default_debugger"
  let ?silent = "idle_world\<lparr>remote := [answering []]\<rparr>"
  let ?w = "idle_world\<lparr>remote := [answering [RESUME], answering [RESUME]]\<rparr>"
  let ?kw = "[(''retries'', PyInt 2)]"
  have names: "op_name answer = ''answer''" "op_name failing = ''failing''" "op_name stuck = ''stuck''"
    by (simp_all add: answer_def failing_def stuck_def)
  have bodies: "op_body failing [] [] = Raised IOError" "op_body stuck [] [] = Blocked"
    "op_body answer [] [] = Returned (PyInt 42)" "op_body answer [PyInt 7] ?kw = Returned (PyInt 42)"
    by (simp_all add: answer_def failing_def stuck_def)
  have waiting: "fst (action_before_method ?d (op_name answer) ?silent) = Blocked
      \<and> trace (snd (action_before_method ?d (op_name answer) ?silent)) =
          [Connected 0, Sent 0 PAUSE, Sent 0 ''We are before method answer!'']"
    by (simp add: basic_action_before_method_def pause_def new_client_def notice_server_def prims
          default_debugger_def idle_world_def answer_def answering_def)
  then have h1: "\<forall>x. fst (action_before_method ?d (op_name answer) ?silent) \<noteq> Returned x"
    by simp
  have "wait ?d answer [] [] ?silent = action_before_method ?d (op_name answer) ?silent"
    using wait_sequence [of ?d answer ?silent "[]" "[]"] h1 by blast
  with waiting have c1: "fst (wait ?d answer [] [] ?silent) = Blocked
      \<and> trace (snd (wait ?d answer [] [] ?silent)) =
          [Connected 0, Sent 0 PAUSE, Sent 0 ''We are before method answer!'']"
    by simp
  have before: "action_before_method EmptyDebugger (op_name failing) idle_world = (Returned PyNone, idle_world)"
    "action_before_method EmptyDebugger (op_name stuck) idle_world = (Returned PyNone, idle_world)"
    "action_before_method EmptyDebugger (op_name answer) idle_world = (Returned PyNone, idle_world)"
    by (simp_all add: empty_action_before_method_def)
  have c2: "wait EmptyDebugger failing [] [] idle_world =
       (Raised IOError, emit [Invoked (op_name failing) [] []] idle_world)"
    using wait_sequence [of EmptyDebugger failing idle_world "[]" "[]" PyNone idle_world IOError]
      before(1) bodies(1) by blast
  have c3: "wait EmptyDebugger stuck [] [] idle_world =
       (Blocked, emit [Invoked (op_name stuck) [] []] idle_world)"
    using wait_sequence [of EmptyDebugger stuck idle_world "[]" "[]" PyNone idle_world]
      before(2) bodies(2) by blast
  have "wait EmptyDebugger answer [] [] idle_world =
        and_then (action_after_method EmptyDebugger (op_name answer)
                    (emit [Invoked (op_name answer) [] []] idle_world))
          (\<lambda>_ w3. (Returned PyNone, w3))"
    using wait_sequence [of EmptyDebugger answer idle_world "[]" "[]" PyNone idle_world _
        "PyInt 42"]
      before(3) bodies(3) by blast
  then have c4: "wait EmptyDebugger answer [] [] idle_world =
       (Returned PyNone, emit [Invoked (op_name answer) [] []] idle_world)"
    by (simp add: empty_action_after_method_def)
  have pre: "remote ?w = answering [RESUME] # answering [RESUME] # []"
    "secret (answering [RESUME]) = d_authkey default_debugger"
    "says (answering [RESUME]) = RESUME # []"
    by (simp_all add: idle_world_def answering_def default_debugger_def)
  have shape: "fresh ?w = 0" by (simp add: idle_world_def)
  have c5: "fst (wait ?d answer [PyInt 7] ?kw ?w) = Returned PyNone
      \<and> new_events ?w (snd (wait ?d answer [PyInt 7] ?kw ?w)) =
          [Connected 0, Sent 0 PAUSE,
           Sent 0 (''We are before method '' @ op_name answer @ ''!''),
           Received 0 RESUME, Closed 0, Released 0,
           Invoked (op_name answer) [PyInt 7] ?kw,
           Connected (Suc 0), Sent (Suc 0) PAUSE,
           Sent (Suc 0) (''We are after method '' @ op_name answer @ ''!''),
           Received (Suc 0) RESUME, Closed (Suc 0), Released (Suc 0)]"
    using wait_sequence [of _ answer ?w "[PyInt 7]" ?kw _ _ _ _ default_debugger
        "answering [RESUME]" "answering [RESUME]" "[]" "[]" "[]", unfolded shape]
      pre bodies(4) by blast
  show ?thesis
    using h1 c1 before bodies c2 c3 c4 pre c5 by (simp add: names)
qed

section \<open>The pause strategies\<close>

text \<open>
  Claim C8: \<^verbatim>\<open>pause\<close>, \<^verbatim>\<open>_action_before_method\<close> and \<^verbatim>\<open>_action_after_method\<close> of
  \<^verbatim>\<open>EmptyDebugger\<close> return \<^verbatim>\<open>None\<close> at once for every argument and leave the world as it
  was: no connection, no message, no log record.
\<close>

theorem EmptyDebugger_no_ops:
  "empty_pause args w = (Returned PyNone, w)
   \<and> empty_action_before_method func_name w = (Returned PyNone, w)
   \<and> empty_action_after_method func_name w = (Returned PyNone, w)
   \<and> action_before_method EmptyDebugger func_name w = (Returned PyNone, w)
   \<and> action_after_method EmptyDebugger func_name w = (Returned PyNone, w)"
  by (simp add: empty_pause_def empty_action_before_method_def empty_action_after_method_def)

text \<open>
  Claim C2 says that \<^verbatim>\<open>BasicDebugger.pause\<close> gives control back only when the message it
  receives is "resume". The docstring of \<^verbatim>\<open>pause\<close> says the same, and the code compares
  the message with "resume", but the comparison only decides whether \<^verbatim>\<open>client.close()\<close> is
  called: on the answer "foo" the call returns normally.
\<close>

theorem pause_returns_on_other_message:
  "pause default_debugger ''before method install_cbinit''
     (idle_world\<lparr>remote := [answering [''foo'']]\<rparr>) =
     (Returned PyNone,
      idle_world\<lparr>inbox := [(0, [], False), (0, [''foo''], False)], fresh := 1,
        trace := [Connected 0, Sent 0 PAUSE, Sent 0 ''before method install_cbinit'',
                  Received 0 ''foo'', Released 0]\<rparr>)"
  by (simp add: pause_def new_client_def notice_server_def prims
        default_debugger_def idle_world_def answering_def)

text \<open>
  Claim C4 says that with a rejected secret \<^verbatim>\<open>pause\<close> fails with \<^verbatim>\<open>AuthenticationError\<close>,
  logged and raised again unchanged, before any message is sent. The handler is
  \<^verbatim>\<open>raise self._log.exception(...)\<close>: the error is logged and nothing is sent, but what
  reaches the caller is the \<^verbatim>\<open>TypeError\<close> of raising \<^verbatim>\<open>None\<close>.
\<close>

theorem pause_wrong_secret_raises_TypeError:
  "pause (default_debugger\<lparr>d_authkey := ''wrong''\<rparr>) ''before method install_cbinit''
     (idle_world\<lparr>remote := [answering [RESUME]]\<rparr>) =
     (Raised TypeError,
      idle_world\<lparr>trace := [AuthRejected,
        LogException ''AuthenticationError - Client creationfailed. Check authentication key!'']\<rparr>)"
  by (simp add: pause_def new_client_def notice_server_def prims default_debugger_def
        idle_world_def answering_def)






text \<open>
  The round trip with the console of listener.py at the other end: the console receives
  what \<^verbatim>\<open>pause\<close> sends, the operator types "1", and \<^verbatim>\<open>pause\<close> receives what that pass of
  the console loop sends. Then the message is shown to the operator, \<^verbatim>\<open>pause\<close> returns and
  its connection is closed.
\<close>

lemma round_trip:
  assumes console: "remote s = ps # later" and key: "secret ps = d_authkey self"
    and subject: "remote c = pc # others" and key': "secret pc = listener_key l"
    and request: "says pc = sent_on (fresh s) (new_events s (snd (pause self msg s)))"
    and operator: "stdin c = ''1'' # ins"
    and answer: "says ps = sent_on (fresh c) (new_events c (snd (iteration l c)))"
  shows "fst (pause self msg s) = Returned PyNone
    \<and> fresh s \<notin> set (open_conns (snd (pause self msg s)))
    \<and> Info msg \<in> set (new_events c (snd (iteration l c)))"
proof -
  from request have rq: "says pc = PAUSE # msg # []"
    by (simp add: pause_sends [OF console key])
  note served = iteration_pause_continue [OF subject key' rq operator]
  then have "sent_on (fresh c) (new_events c (snd (iteration l c))) = [RESUME]"
    by (cases "held c") (simp_all add: new_events_def)
  with answer have rs: "says ps = RESUME # []" by simp
  have shown: "Info msg \<in> set (new_events c (snd (iteration l c)))"
    by (cases "held c") (simp_all add: served new_events_def)
  from pause_resumed [OF console key rs, of msg] shown show ?thesis by simp
qed

section \<open>The operator console\<close>

text \<open>
  Claim C5, as the specification states it: on a pause request and the input "1", the
  console sends "resume" on the same connection and closes that connection. It fails on
  the closing: the whole run of the loop on one such client ends waiting in \<^verbatim>\<open>accept\<close>,
  with "resume" sent, no \<open>Closed\<close> in the trace and connection 0 still open.
\<close>

theorem console_never_closes_counterexample:
  "fst (start_loop default_listener console_world) = Blocked
   \<and> trace (snd (start_loop default_listener console_world)) =
       [Accepted 0, Received 0 PAUSE, Received 0 ''before method install_cbinit'',
        Info ''before method install_cbinit'', Info ''Enter the number of what you want to do:'',
        Info ''1. Continue'', Prompted ''Prompt: '', Info ''Argus is resumed!'', Sent 0 RESUME]
   \<and> Closed 0 \<notin> set (trace (snd (start_loop default_listener console_world)))
   \<and> open_conns (snd (start_loop default_listener console_world)) = [0]"
proof -
  have 1: "iteration default_listener console_world =
    (Returned PyNone,
     idle_world\<lparr>inbox := [(0, [], False), (0, [''before method install_cbinit''], False),
                  (0, [PAUSE, ''before method install_cbinit''], False)],
       open_conns := [0], held := Some 0, fresh := 1,
       trace := [Accepted 0, Received 0 PAUSE, Received 0 ''before method install_cbinit'',
        Info ''before method install_cbinit'', Info ''Enter the number of what you want to do:'',
        Info ''1. Continue'', Prompted ''Prompt: '', Info ''Argus is resumed!'', Sent 0 RESUME]\<rparr>)"
    (is "_ = (_, ?w1)")
    by (simp add: iteration_def prims console_world_def idle_world_def answering_def
          default_listener_def)
  have "remote ?w1 = []" by (simp add: idle_world_def)
  then have "start_loop default_listener ?w1 = (Blocked, ?w1)" by (rule start_loop_idle)
  with start_loop_step [OF 1] have "start_loop default_listener console_world = (Blocked, ?w1)"
    by simp
  then show ?thesis by (simp add: idle_world_def)
qed

text \<open>
  Claim C5, amended: for every accepted connection whose type tag is "pause", if the
  operator enters "1" the console shows the message and the menu, sends "resume" on that
  same connection, and the loop goes back to \<^verbatim>\<open>accept\<close>. It does not close that connection
  before it is accepting again: after the pass the connection is open and \<^verbatim>\<open>conn\<close> still
  refers to it, and with no further client the console waits in \<^verbatim>\<open>accept\<close> in that state.
\<close>

theorem console_resumes_on_1:
  assumes "remote w = p # rest" and "secret p = listener_key l"
    and "says p = PAUSE # msg # ms" and "stdin w = ''1'' # ins"
    and "held w \<noteq> Some (fresh w)"
  shows "fst (iteration l w) = Returned PyNone
   \<and> new_events w (snd (iteration l w)) =
       Accepted (fresh w) # (case held w of None \<Rightarrow> [] | Some old \<Rightarrow> [Released old]) @
       [Received (fresh w) PAUSE, Received (fresh w) msg,
        Info msg, Info ''Enter the number of what you want to do:'', Info ''1. Continue'',
        Prompted ''Prompt: '', Info ''Argus is resumed!'', Sent (fresh w) RESUME]
   \<and> fresh w \<in> set (open_conns (snd (iteration l w)))
   \<and> held (snd (iteration l w)) = Some (fresh w)
   \<and> remote (snd (iteration l w)) = rest
   \<and> start_loop l w = start_loop l (snd (iteration l w))
   \<and> (rest = [] \<longrightarrow> start_loop l w = (Blocked, snd (iteration l w)))
   \<and> take (Suc (length (new_events w (snd (iteration l w))))) (new_events w (snd (start_loop l w))) =
       new_events w (snd (iteration l w)) @
       (case rest of [] \<Rightarrow> []
        | q # qs \<Rightarrow> [if secret q = listener_key l then Accepted (Suc (fresh w)) else AuthRejected])"
proof -
  note it = iteration_pause_continue [OF assms(1-4)]
  have sl: "start_loop l w = start_loop l (snd (iteration l w))"
    using start_loop_step [of l w PyNone "snd (iteration l w)"] it by simp
  have rem: "remote (snd (iteration l w)) = rest" by (simp add: it)
  have idle: "rest = [] \<longrightarrow> start_loop l w = (Blocked, snd (iteration l w))"
    using start_loop_idle [of "snd (iteration l w)" l] rem sl by simp
  have pass: "fst (iteration l w) = Returned PyNone
   \<and> new_events w (snd (iteration l w)) =
       Accepted (fresh w) # (case held w of None \<Rightarrow> [] | Some old \<Rightarrow> [Released old]) @
       [Received (fresh w) PAUSE, Received (fresh w) msg,
        Info msg, Info ''Enter the number of what you want to do:'', Info ''1. Continue'',
        Prompted ''Prompt: '', Info ''Argus is resumed!'', Sent (fresh w) RESUME]
   \<and> fresh w \<in> set (open_conns (snd (iteration l w)))
   \<and> held (snd (iteration l w)) = Some (fresh w)"
    using assms(5) by (cases "held w") (simp_all add: it new_events_def)
  have whole: "iteration l w = (Returned PyNone, snd (iteration l w))" by (simp add: it)
  have grown: "trace (snd (iteration l w)) = trace w @ new_events w (snd (iteration l w))"
    by (cases "held w") (simp_all add: it new_events_def)
  have fr': "fresh (snd (iteration l w)) = Suc (fresh w)" by (simp add: it)
  have nxt: "take (Suc (length (new_events w (snd (iteration l w))))) (new_events w (snd (start_loop l w))) =
       new_events w (snd (iteration l w)) @
       (case rest of [] \<Rightarrow> []
        | q # qs \<Rightarrow> [if secret q = listener_key l then Accepted (Suc (fresh w)) else AuthRejected])"
    using start_loop_next [OF whole grown] by (simp only: rem fr')
  from pass rem sl idle nxt show ?thesis by blast
qed

text \<open>Claim C5, amended, at the console with one pausing client.\<close>

theorem console_resumes_on_1_witness:
  "remote console_world = answering [PAUSE, ''before method install_cbinit''] # []
   \<and> secret (answering [PAUSE, ''before method install_cbinit'']) = listener_key default_listener
   \<and> says (answering [PAUSE, ''before method install_cbinit'']) =
       PAUSE # ''before method install_cbinit'' # []
   \<and> stdin console_world = ''1'' # []
   \<and> held console_world \<noteq> Some (fresh console_world)
   \<and> fst (iteration default_listener console_world) = Returned PyNone
   \<and> new_events console_world (snd (iteration default_listener console_world)) =
       [Accepted 0, Received 0 PAUSE, Received 0 ''before method install_cbinit'',
        Info ''before method install_cbinit'', Info ''Enter the number of what you want to do:'',
        Info ''1. Continue'', Prompted ''Prompt: '', Info ''Argus is resumed!'', Sent 0 RESUME]
   \<and> 0 \<in> set (open_conns (snd (iteration default_listener console_world)))
   \<and> held (snd (iteration default_listener console_world)) = Some 0
   \<and> remote (snd (iteration default_listener console_world)) = []
   \<and> start_loop default_listener console_world =
       (Blocked, snd (iteration default_listener console_world))
   \<and> take 10 (new_events console_world (snd (start_loop default_listener console_world))) =
       [Accepted 0, Received 0 PAUSE, Received 0 ''before method install_cbinit'',
        Info ''before method install_cbinit'', Info ''Enter the number of what you want to do:'',
        Info ''1. Continue'', Prompted ''Prompt: '', Info ''Argus is resumed!'', Sent 0 RESUME]"
proof -
  let ?p = "answering [PAUSE, ''before method install_cbinit'']"
  have pre: "remote console_world = ?p # []" "secret ?p = listener_key default_listener"
    "says ?p = PAUSE # ''before method install_cbinit'' # []" "stdin console_world = ''1'' # []"
    "held console_world \<noteq> Some (fresh console_world)"
    by (simp_all add: console_world_def idle_world_def answering_def default_listener_def)
  have shape: "fresh console_world = 0" "held console_world = None"
    by (simp_all add: console_world_def idle_world_def)
  note t = console_resumes_on_1 [OF pre]
  from t have a: "fst (iteration default_listener console_world) = Returned PyNone
   \<and> new_events console_world (snd (iteration default_listener console_world)) =
       [Accepted 0, Received 0 PAUSE, Received 0 ''before method install_cbinit'',
        Info ''before method install_cbinit'', Info ''Enter the number of what you want to do:'',
        Info ''1. Continue'', Prompted ''Prompt: '', Info ''Argus is resumed!'', Sent 0 RESUME]
   \<and> 0 \<in> set (open_conns (snd (iteration default_listener console_world)))
   \<and> held (snd (iteration default_listener console_world)) = Some 0
   \<and> remote (snd (iteration default_listener console_world)) = []"
    by (simp add: shape)
  from t have b: "start_loop default_listener console_world =
       (Blocked, snd (iteration default_listener console_world))"
    by blast
  from t have "take (Suc (length (new_events console_world (snd (iteration default_listener console_world)))))
        (new_events console_world (snd (start_loop default_listener console_world))) =
       new_events console_world (snd (iteration default_listener console_world)) @
       (case ([] :: peer list) of [] \<Rightarrow> []
        | q # qs \<Rightarrow> [if secret q = listener_key default_listener
                     then Accepted (Suc (fresh console_world)) else AuthRejected])"
    by (elim conjE) assumption
  with a have c: "take 10 (new_events console_world (snd (start_loop default_listener console_world))) =
       [Accepted 0, Received 0 PAUSE, Received 0 ''before method install_cbinit'',
        Info ''before method install_cbinit'', Info ''Enter the number of what you want to do:'',
        Info ''1. Continue'', Prompted ''Prompt: '', Info ''Argus is resumed!'', Sent 0 RESUME]"
    by (simp add: eval_nat_numeral)
  from pre a b c show ?thesis by blast
qed




section \<open>The strategy selector\<close>

text \<open>
  Claim C7: \<^verbatim>\<open>Debugger.get\<close> returns the \<^verbatim>\<open>EmptyDebugger\<close>, touching nothing, when the
  flag of the config is false; when the flag is true and the disclaimer file is there, it
  reads the file, writes its text as a warning, and returns a \<^verbatim>\<open>BasicDebugger\<close> holding
  the address, the port and the secret of the same config.
\<close>

theorem Debugger_get_selects:
  "(\<not> flag config \<longrightarrow> Debugger_get config w = (Returned EmptyDebugger, w))
   \<and> (flag config \<and> map_of (files w) ''argus/debug/disclaimer.txt'' = Some text \<longrightarrow>
        Debugger_get config w =
          (Returned (BasicDebugger \<lparr>d_ip = ip config, d_port = port config, d_authkey = authkey config\<rparr>),
           emit [FileRead ''argus/debug/disclaimer.txt'', LogWarning text] w))"
  by (simp add: Debugger_get_def read_file_def log_warning_def emit_def BaseDebugger_init_def)

text \<open>Claim C7 at the default config, with the flag off and with the flag on.\<close>

theorem Debugger_get_selects_witness:
  "\<not> flag default_config
   \<and> Debugger_get default_config idle_world = (Returned EmptyDebugger, idle_world)
   \<and> flag (default_config\<lparr>flag := True\<rparr>)
   \<and> map_of (files idle_world) ''argus/debug/disclaimer.txt'' = Some ''Debug mode is on.''
   \<and> Debugger_get (default_config\<lparr>flag := True\<rparr>) idle_world =
       (Returned (BasicDebugger default_debugger),
        emit [FileRead ''argus/debug/disclaimer.txt'', LogWarning ''Debug mode is on.''] idle_world)"
  using Debugger_get_selects [of default_config idle_world "''Debug mode is on.''"]
    Debugger_get_selects [of "default_config\<lparr>flag := True\<rparr>" idle_world "''Debug mode is on.''"]
  by (simp add: default_config_def idle_world_def default_debugger_def)

end
